theory Spec2Isabelle
  imports Complex_Main "HOL-Library.AList" "HOL-Library.Multiset"
begin

section \<open>Data model of the issue-intake backend (src/api/src/index.ts)\<close>

text \<open>
  JavaScript strings are modelled as HOL strings, one \<open>char\<close> per code unit, so
  \<open>length\<close> is the source's \<open>.length\<close>.  \<open>Date.now()\<close> is a natural number of
  milliseconds.  An optional property (\<open>undefined\<close> or \<open>null\<close>) is an \<open>option\<close>.
  Field names that several source types share carry a prefix in the request records.
\<close>

datatype Role = User | Admin

record User =
  user_id :: string
  email :: "string option"
  aadhaar :: "string option"
  password :: string
  role :: Role
  language :: "string option"

datatype MediaType = photo | video | audio

text \<open>
  The request body is parsed JSON that the handlers cast and never check, so the
  \<open>data\<close> of a submitted media object may be missing or not a string: that is
  \<open>None\<close> here, and \<open>Some d\<close> is the string \<open>d\<close>.
\<close>

record Media =
  type :: MediaType
  data :: "string option"

datatype IssueStatus = Reported | Verified | Assigned | Resolved | Spam

datatype Priority = Low | Medium | High

record Location =
  lat :: real
  lng :: real

record Issue =
  issue_id :: string
  userId :: string
  category :: string
  description :: string
  priority :: Priority
  department :: "string option"
  emergency :: bool
  status :: IssueStatus
  location :: "Location option"
  media :: "Media option"
  voice :: "Media option"
  createdAt :: nat
  updatedAt :: nat

text \<open>
  The two in-memory stores, \<open>const users: Record<string, User> = {}\<close> and
  \<open>const issues: Record<string, Issue> = {}\<close>, are association lists in insertion
  order.  \<open>obj[k] = v\<close> is \<open>AList.update k v\<close>: an existing key keeps its place, a new
  key goes to the end.
\<close>

record state =
  users :: "(string \<times> User) list"
  issues :: "(string \<times> Issue) list"

text \<open>An HTTP error response: status code and the \<open>error\<close> message of the JSON body.\<close>

type_synonym error = "nat \<times> string"

section \<open>JavaScript built-ins the handlers use\<close>

text \<open>\<open>n.toString(36)\<close> for a non-negative integer.\<close>

definition digit36 :: "nat \<Rightarrow> char" where
  "digit36 d = ''0123456789abcdefghijklmnopqrstuvwxyz'' ! d"

function toString36 :: "nat \<Rightarrow> string" where
  "toString36 n = (if n < 36 then [digit36 n] else toString36 (n div 36) @ [digit36 (n mod 36)])"
  by pat_completeness auto
termination
  by (relation "measure (\<lambda>n. n)") auto

declare toString36.simps [simp del]

text \<open>\<open>s.split(c)\<close> for a one-character separator: never empty, \<open>''''.split(c) = ['''']\<close>.\<close>

fun split :: "char \<Rightarrow> string \<Rightarrow> string list" where
  "split c [] = [[]]"
| "split c (x # xs) =
     (if x = c then [] # split c xs
      else (case split c xs of [] \<Rightarrow> [[x]] | y # ys \<Rightarrow> (x # y) # ys))"

text \<open>\<open>s.startsWith(p)\<close> and \<open>s.slice(4)\<close>.\<close>

definition startsWith :: "string \<Rightarrow> string \<Rightarrow> bool" where
  "startsWith s p = (take (length p) s = p)"

definition slice4 :: "string \<Rightarrow> string" where
  "slice4 s = drop 4 s"

text \<open>
  Truthiness of an optional string: \<open>undefined\<close> and the empty string are falsy.
\<close>

definition truthy :: "string option \<Rightarrow> bool" where
  "truthy s = (case s of None \<Rightarrow> False | Some t \<Rightarrow> t \<noteq> [])"

section \<open>Media authenticity gate\<close>

record Verdict =
  isGenuine :: bool
  reason :: "string option"

text \<open>\<open>media.data.split(',')[1] ?? ''\<close>\<close>

definition base64 :: "string \<Rightarrow> string" where
  "base64 d = (case split (CHR '','') d of _ # b # _ \<Rightarrow> b | _ \<Rightarrow> [])"

text \<open>\<open>Math.ceil((base64.length * 3) / 4)\<close>\<close>

definition sizeBytes :: "string \<Rightarrow> nat" where
  "sizeBytes d = (length (base64 d) * 3 + 3) div 4"

text \<open>
  The body of the \<open>try\<close> in \<open>verifyMediaHeuristic\<close>.  \<open>media.data.split(',')\<close>
  throws a \<open>TypeError\<close> when \<open>media.data\<close> is missing or is not a string; on a
  string nothing in the body throws.
\<close>

datatype exception = TypeError

definition verify_try :: "Media \<Rightarrow> exception + Verdict" where
  "verify_try md =
     (case data md of
        None \<Rightarrow> Inl TypeError
      | Some d \<Rightarrow>
          Inr (if type md = photo \<and> sizeBytes d < 10000
               then \<lparr>isGenuine = False, reason = Some ''Image too small''\<rparr>
               else \<lparr>isGenuine = True, reason = None\<rparr>))"

text \<open>\<open>verifyMediaHeuristic\<close>: no media, else the \<open>try\<close> with its \<open>catch\<close>.\<close>

definition verifyMediaHeuristic :: "Media option \<Rightarrow> Verdict" where
  "verifyMediaHeuristic m =
     (case m of
        None \<Rightarrow> \<lparr>isGenuine = False, reason = Some ''No media''\<rparr>
      | Some md \<Rightarrow>
          (case verify_try md of
             Inr verdict \<Rightarrow> verdict
           | Inl _ \<Rightarrow> \<lparr>isGenuine = False, reason = Some ''Invalid media data''\<rparr>))"

section \<open>Property access on a plain object used as a dictionary\<close>

text \<open>
  Both stores are object literals \<open>{}\<close>, so they inherit from \<open>Object.prototype\<close>.
  Reading \<open>obj[k]\<close> yields the own property when there is one; otherwise, for the
  twelve property names of \<open>Object.prototype\<close>, the inherited built-in (a function, or
  for \<open>__proto__\<close> the prototype object itself: truthy in every case); otherwise
  \<open>undefined\<close>.  The model assumes that \<open>Object.prototype\<close> holds its built-in
  properties only.
\<close>

datatype 'v property = Own 'v | Inherited | Undefined

definition Object_prototype_names :: "string list" where
  "Object_prototype_names =
     [''constructor'', ''__defineGetter__'', ''__defineSetter__'', ''hasOwnProperty'',
      ''__lookupGetter__'', ''__lookupSetter__'', ''isPrototypeOf'',
      ''propertyIsEnumerable'', ''toString'', ''valueOf'', ''__proto__'',
      ''toLocaleString'']"

definition get_property :: "(string \<times> 'v) list \<Rightarrow> string \<Rightarrow> 'v property" where
  "get_property obj k =
     (case map_of obj k of
        Some v \<Rightarrow> Own v
      | None \<Rightarrow> if k \<in> set Object_prototype_names then Inherited else Undefined)"

text \<open>
  \<open>Object.values(obj)\<close> enumerates own properties: first the keys that are array
  indices (canonical decimal numerals below \<open>2^32 - 1\<close>) in ascending numeric order,
  then every other key in insertion order.
\<close>

definition index_value :: "string \<Rightarrow> nat" where
  "index_value k = foldl (\<lambda>a c. 10 * a + (of_char c - 48)) 0 k"

definition is_array_index :: "string \<Rightarrow> bool" where
  "is_array_index k =
     (k \<noteq> [] \<and> list_all (\<lambda>c. c \<in> set ''0123456789'') k
      \<and> (k = ''0'' \<or> hd k \<noteq> CHR ''0'') \<and> index_value k < 4294967295)"

definition Object_values :: "(string \<times> 'v) list \<Rightarrow> 'v list" where
  "Object_values obj =
     map snd (sort_key (\<lambda>kv. index_value (fst kv)) (filter (\<lambda>kv. is_array_index (fst kv)) obj))
     @ map snd (filter (\<lambda>kv. \<not> is_array_index (fst kv)) obj)"

section \<open>Auth endpoints\<close>








section \<open>Issues\<close>

text \<open>
  A JavaScript number as \<open>Number(s)\<close> may return it.  \<open>Number\<close> itself is a built-in
  and a parameter of the handler below.
\<close>

datatype number = NaN | Num real | Infinity | NegInfinity

definition number_truthy :: "number \<Rightarrow> bool" where
  "number_truthy x = (case x of NaN \<Rightarrow> False | Num r \<Rightarrow> r \<noteq> 0 | _ \<Rightarrow> True)"

text \<open>\<open>t >= x\<close> and \<open>t <= x\<close> for an integer timestamp \<open>t\<close>.\<close>

definition ge_number :: "nat \<Rightarrow> number \<Rightarrow> bool" where
  "ge_number t x =
     (case x of NaN \<Rightarrow> False | Num r \<Rightarrow> r \<le> real t | Infinity \<Rightarrow> False | NegInfinity \<Rightarrow> True)"

definition le_number :: "nat \<Rightarrow> number \<Rightarrow> bool" where
  "le_number t x =
     (case x of NaN \<Rightarrow> False | Num r \<Rightarrow> real t \<le> r | Infinity \<Rightarrow> True | NegInfinity \<Rightarrow> False)"

definition status_string :: "IssueStatus \<Rightarrow> string" where
  "status_string s =
     (case s of Reported \<Rightarrow> ''Reported'' | Verified \<Rightarrow> ''Verified'' | Assigned \<Rightarrow> ''Assigned''
      | Resolved \<Rightarrow> ''Resolved'' | Spam \<Rightarrow> ''Spam'')"

definition priority_string :: "Priority \<Rightarrow> string" where
  "priority_string p = (case p of Low \<Rightarrow> ''Low'' | Medium \<Rightarrow> ''Medium'' | High \<Rightarrow> ''High'')"

record Query =
  q_category :: "string option"
  q_status :: "string option"
  q_priority :: "string option"
  q_from :: "string option"
  q_to :: "string option"

text \<open>\<open>GET /issues\<close>: the filters are applied one after the other to \<open>Object.values(issues)\<close>.\<close>

definition get_issues :: "(string \<Rightarrow> number) \<Rightarrow> Query \<Rightarrow> state \<Rightarrow> Issue list" where
  "get_issues Number q st =
     (let list = Object_values (issues st);
          list = (if truthy (q_category q)
                  then filter (\<lambda>i. Some (category i) = q_category q) list else list);
          list = (if truthy (q_status q)
                  then filter (\<lambda>i. Some (status_string (status i)) = q_status q) list else list);
          list = (if truthy (q_priority q)
                  then filter (\<lambda>i. Some (priority_string (priority i)) = q_priority q) list
                  else list);
          fromTs = (case q_from q of None \<Rightarrow> None
                    | Some f \<Rightarrow> if f = [] then None else Some (Number f));
          toTs = (case q_to q of None \<Rightarrow> None
                  | Some t \<Rightarrow> if t = [] then None else Some (Number t));
          list = (case fromTs of None \<Rightarrow> list
                  | Some x \<Rightarrow> if number_truthy x
                              then filter (\<lambda>i. ge_number (createdAt i) x) list else list);
          list = (case toTs of None \<Rightarrow> list
                  | Some x \<Rightarrow> if number_truthy x
                              then filter (\<lambda>i. le_number (createdAt i) x) list else list)
      in list)"

record IssueBody =
  b_description :: "string option"
  b_category :: "string option"
  b_priority :: "Priority option"
  b_emergency :: "bool option"
  b_location :: "Location option"
  b_media :: "Media option"
  b_voice :: "Media option"
  b_department :: "string option"

text \<open>
  \<open>POST /issues\<close>.  The second argument is the \<open>token\<close> request header, the first the
  value of \<open>Date.now()\<close>.  No lookup in \<open>users\<close> takes place.
\<close>

definition post_issues ::
  "nat \<Rightarrow> string option \<Rightarrow> IssueBody \<Rightarrow> state \<Rightarrow> (error + Issue) \<times> state" where
  "post_issues now tok b st =
     (case tok of
        None \<Rightarrow> (Inl (401, ''Unauthorized''), st)
      | Some t \<Rightarrow>
          if t = [] \<or> \<not> startsWith t ''dev-'' then (Inl (401, ''Unauthorized''), st)
          else
            (case (b_description b, b_priority b) of
               (Some d, Some p) \<Rightarrow>
                 if d = [] then (Inl (400, ''description and priority are required''), st)
                 else
                   let id = toString36 now;
                       stat = (if isGenuine (verifyMediaHeuristic (b_media b))
                               then Reported else Spam);
                       issue = \<lparr>issue_id = id, userId = slice4 t,
                                category = (case b_category b of None \<Rightarrow> ''Other'' | Some c \<Rightarrow> c),
                                description = d, priority = p,
                                department = b_department b,
                                emergency = (case b_emergency b of None \<Rightarrow> False | Some e \<Rightarrow> e),
                                status = stat, location = b_location b,
                                media = b_media b, voice = b_voice b,
                                createdAt = now, updatedAt = now\<rparr>
                   in (Inr issue, st\<lparr>issues := AList.update id issue (issues st)\<rparr>)
             | _ \<Rightarrow> (Inl (400, ''description and priority are required''), st)))"

record PatchBody =
  p_status :: "IssueStatus option"
  p_department :: "string option"
  p_priority :: "Priority option"

text \<open>
  \<open>PATCH /issues/:id\<close>, with \<open>id'\<close> the path parameter.  When \<open>issues[id]\<close> is an
  inherited built-in, the guard \<open>!existing\<close> is false: the assignments write to that
  built-in object, the issue store is left as it is, and the reply is a 200 without an
  issue record.  For \<open>__proto__\<close> the object written to is \<open>Object.prototype\<close>
  itself; what the properties put there do to later requests is outside this model,
  whose state is the two stores.
\<close>

datatype PatchReply = Patched Issue | PatchedBuiltin

definition patch_issues ::
  "nat \<Rightarrow> string \<Rightarrow> PatchBody \<Rightarrow> state \<Rightarrow> (error + PatchReply) \<times> state" where
  "patch_issues now id' b st =
     (case get_property (issues st) id' of
        Undefined \<Rightarrow> (Inl (404, ''Issue not found''), st)
      | Inherited \<Rightarrow> (Inr PatchedBuiltin, st)
      | Own existing \<Rightarrow>
          let e1 = (case p_status b of None \<Rightarrow> existing | Some s \<Rightarrow> existing\<lparr>status := s\<rparr>);
              e2 = (case p_department b of None \<Rightarrow> e1 | Some d \<Rightarrow> e1\<lparr>department := Some d\<rparr>);
              e3 = (case p_priority b of None \<Rightarrow> e2 | Some p \<Rightarrow> e2\<lparr>priority := p\<rparr>);
              e4 = e3\<lparr>updatedAt := now\<rparr>
          in (Inr (Patched e4), st\<lparr>issues := AList.update id' e4 (issues st)\<rparr>))"

section \<open>Weekly escalation\<close>

definition oneWeekMs :: int where
  "oneWeekMs = 7 * 24 * 60 * 60 * 1000"

text \<open>The body of the \<open>forEach\<close>: the issue object is changed in place.\<close>

definition escalate_issue :: "nat \<Rightarrow> Issue \<Rightarrow> Issue" where
  "escalate_issue now issue =
     (if status issue \<noteq> Resolved \<and> int now - int (createdAt issue) > oneWeekMs
      then issue\<lparr>status := Assigned,
                 department := (if truthy (department issue) then department issue
                                else Some ''Commissioner''),
                 updatedAt := now\<rparr>
      else issue)"

text \<open>One run of the \<open>setInterval\<close> callback at time \<open>now\<close>.\<close>

definition escalation :: "nat \<Rightarrow> state \<Rightarrow> state" where
  "escalation now st = st\<lparr>issues := map (\<lambda>kv. (fst kv, escalate_issue now (snd kv))) (issues st)\<rparr>"

section \<open>The server as a transition system\<close>

text \<open>At start-up both stores are the empty object.\<close>

definition initial :: state where
  "initial = \<lparr>users = [], issues = []\<rparr>"

text \<open>
  The calls that write to the issue store, each taken at one reading \<open>now\<close> of the
  clock: a creation, a status update, a tick of the escalation timer.
\<close>

datatype request =
  PostIssues "string option" IssueBody
| PatchIssues string PatchBody
| EscalationTick

definition step :: "nat \<Rightarrow> request \<Rightarrow> state \<Rightarrow> state" where
  "step now r st =
     (case r of
        PostIssues tok b \<Rightarrow> snd (post_issues now tok b st)
      | PatchIssues k b \<Rightarrow> snd (patch_issues now k b st)
      | EscalationTick \<Rightarrow> escalation now st)"

fun run :: "(nat \<times> request) list \<Rightarrow> state \<Rightarrow> state" where
  "run [] st = st"
| "run (tr # rest) st = run rest (step (fst tr) (snd tr) st)"

text \<open>Clock readings that never go back: each is at least the one before, from \<open>clk\<close> on.\<close>

definition chronological :: "nat \<Rightarrow> (nat \<times> request) list \<Rightarrow> bool" where
  "chronological clk trace = sorted (clk # map fst trace)"

text \<open>Every stored issue was created no later than it was last updated, and both by \<open>clk\<close>.\<close>

definition timestamps_ok :: "nat \<Rightarrow> state \<Rightarrow> bool" where
  "timestamps_ok clk st =
     list_all (\<lambda>kv. createdAt (snd kv) \<le> updatedAt (snd kv) \<and> updatedAt (snd kv) \<le> clk)
       (issues st)"

section \<open>Notions the specification uses\<close>

text \<open>A query without any filter.\<close>

definition no_filters :: Query where
  "no_filters =
     \<lparr>q_category = None, q_status = None, q_priority = None, q_from = None, q_to = None\<rparr>"

text \<open>Most recent first: no issue is listed before one created later.\<close>

definition most_recent_first :: "Issue list \<Rightarrow> bool" where
  "most_recent_first xs = sorted_wrt (\<lambda>a b. createdAt b \<le> createdAt a) xs"

text \<open>The token resolves to an existing user: it is \<open>dev-\<close> followed by a stored identifier.\<close>

definition known_token :: "state \<Rightarrow> string option \<Rightarrow> bool" where
  "known_token st tok =
     list_ex (\<lambda>kv. tok = Some (''dev-'' @ user_id (snd kv))) (users st)"

section \<open>Example requests\<close>

text \<open>The requests of the specification's examples.\<close>

definition pothole :: IssueBody where
  "pothole =
     \<lparr>b_description = Some ''pothole on 5th'', b_category = None, b_priority = Some Medium,
      b_emergency = None, b_location = None, b_media = None, b_voice = None,
      b_department = None\<rparr>"

definition with_media :: "IssueBody \<Rightarrow> MediaType \<Rightarrow> string \<Rightarrow> IssueBody" where
  "with_media b ty d = b\<lparr>b_media := Some \<lparr>type = ty, data = Some d\<rparr>\<rparr>"

text \<open>A media object that carries its kind and no \<open>data\<close>.\<close>

definition without_data :: "IssueBody \<Rightarrow> MediaType \<Rightarrow> IssueBody" where
  "without_data b ty = b\<lparr>b_media := Some \<lparr>type = ty, data = None\<rparr>\<rparr>"

definition data_url :: "nat \<Rightarrow> string" where
  "data_url n = ''data:image/png;base64,'' @ replicate n (CHR ''A'')"


definition only_status :: "IssueStatus \<Rightarrow> PatchBody" where
  "only_status s = \<lparr>p_status = Some s, p_department = None, p_priority = None\<rparr>"

text \<open>
  The pothole report, created at 1700000000000 with token \<open>dev-loyw3v28\<close>, and the
  state after an administrator has set it to Resolved ten minutes later.
\<close>

definition pothole_reported :: state where
  "pothole_reported = snd (post_issues 1700000000000 (Some ''dev-loyw3v28'') pothole initial)"

text \<open>A second report, filed ten minutes after the pothole.\<close>

definition garbage :: IssueBody where
  "garbage = pothole\<lparr>b_description := Some ''garbage on 6th''\<rparr>"

definition two_reports :: state where
  "two_reports = snd (post_issues 1700000600000 (Some ''dev-loyw3v28'') garbage pothole_reported)"

definition pothole_resolved :: state where
  "pothole_resolved =
     snd (patch_issues 1700000600000 ''loyw3v28'' (only_status Resolved) pothole_reported)"

section \<open>Facts about the built-ins\<close>

lemma split_no_separator: "c \<notin> set s \<Longrightarrow> split c s = [s]"
  by (induction s) auto

lemma base64_no_comma: "CHR '','' \<notin> set d \<Longrightarrow> base64 d = []"
  by (simp add: base64_def split_no_separator)

lemma sizeBytes_data_url: "sizeBytes (data_url n) = (n * 3 + 3) div 4"
  by (simp add: sizeBytes_def base64_def data_url_def split_no_separator)

section \<open>The media gate and the initial status\<close>

text \<open>
  C10: a photo whose data string has no comma has an empty base64 payload, hence a
  decoded size of 0 bytes, and the gate rejects it with reason 'Image too small',
  however long the data string is.
\<close>

theorem photo_without_comma_too_small:
  "CHR '','' \<notin> set d \<Longrightarrow>
     base64 d = [] \<and> sizeBytes d = 0 \<and>
     verifyMediaHeuristic (Some \<lparr>type = photo, data = Some d\<rparr>)
       = \<lparr>isGenuine = False, reason = Some ''Image too small''\<rparr>"
  by (simp add: base64_no_comma sizeBytes_def verifyMediaHeuristic_def verify_try_def)

theorem photo_without_comma_too_small_witness:
  "CHR '','' \<notin> set ''https://via.placeholder.com/400x300.png?text=Pothole+Image'' \<and>
   length ''https://via.placeholder.com/400x300.png?text=Pothole+Image'' = 58 \<and>
   sizeBytes ''https://via.placeholder.com/400x300.png?text=Pothole+Image'' = 0 \<and>
   verifyMediaHeuristic
     (Some \<lparr>type = photo,
            data = Some ''https://via.placeholder.com/400x300.png?text=Pothole+Image''\<rparr>)
     = \<lparr>isGenuine = False, reason = Some ''Image too small''\<rparr>"
  using photo_without_comma_too_small
    [of "''https://via.placeholder.com/400x300.png?text=Pothole+Image''"]
  by simp

text \<open>
  C1, as the code has it: a creation request with a token that starts with \<open>dev-\<close>,
  a non-empty description and a priority stores the new issue under
  \<open>now.toString(36)\<close>.  Its status is Spam when there is no media; Spam when the
  media has no string data (the gate's \<open>try\<close> throws and its \<open>catch\<close> rejects),
  whatever its kind; Spam when the media is a photo whose decoded size is below 10000
  bytes; and Reported when the media has string data and its decoded size is at least
  10000 bytes or its kind is not photo.  The decoded size is the gate's own: three
  quarters, rounded up, of the length of the text between the first and the second
  comma of the data string.
\<close>

theorem post_issues_initial_status:
  assumes "startsWith t ''dev-''"
    and "b_description b = Some d" and "d \<noteq> []"
    and "b_priority b = Some p"
  shows "\<exists>issue.
     post_issues now (Some t) b st
       = (Inr issue, st\<lparr>issues := AList.update (toString36 now) issue (issues st)\<rparr>)
     \<and> (b_media b = None \<longrightarrow> status issue = Spam)
     \<and> (\<forall>m. b_media b = Some m \<and> data m = None \<longrightarrow> status issue = Spam)
     \<and> (\<forall>m s. b_media b = Some m \<and> data m = Some s \<and> type m = photo \<and> sizeBytes s < 10000
            \<longrightarrow> status issue = Spam)
     \<and> (\<forall>m s. b_media b = Some m \<and> data m = Some s
              \<and> (10000 \<le> sizeBytes s \<or> type m \<noteq> photo)
            \<longrightarrow> status issue = Reported)"
proof -
  from assms(1) have "t \<noteq> []"
    by (auto simp: startsWith_def)
  with assms show ?thesis
    by (auto simp: post_issues_def Let_def verifyMediaHeuristic_def verify_try_def
        split: option.splits)
qed

theorem post_issues_initial_status_witness:
  "startsWith ''dev-loyw3v28'' ''dev-''
   \<and> sizeBytes (data_url 13332) = 9999 \<and> sizeBytes (data_url 13333) = 10000
   \<and> map_option status (map_of (issues (snd (post_issues 1700000600000 (Some ''dev-loyw3v28'')
          pothole initial))) ''loywgq0w'') = Some Spam
   \<and> map_option status (map_of (issues (snd (post_issues 1700000600000 (Some ''dev-loyw3v28'')
          (without_data pothole photo) initial))) ''loywgq0w'') = Some Spam
   \<and> map_option status (map_of (issues (snd (post_issues 1700000600000 (Some ''dev-loyw3v28'')
          (with_media pothole photo (data_url 13332)) initial))) ''loywgq0w'') = Some Spam
   \<and> map_option status (map_of (issues (snd (post_issues 1700000600000 (Some ''dev-loyw3v28'')
          (with_media pothole photo (data_url 13333)) initial))) ''loywgq0w'') = Some Reported
   \<and> map_option status (map_of (issues (snd (post_issues 1700000600000 (Some ''dev-loyw3v28'')
          (with_media pothole video []) initial))) ''loywgq0w'') = Some Reported"
proof -
  have tok: "startsWith ''dev-loyw3v28'' ''dev-''"
    by (simp add: startsWith_def)
  have id: "toString36 1700000600000 = ''loywgq0w''"
    by (simp add: toString36.simps digit36_def)
  have small: "sizeBytes (data_url 13332) = 9999" and large: "sizeBytes (data_url 13333) = 10000"
    by (simp_all add: sizeBytes_data_url)
  note inst = post_issues_initial_status [OF tok, where d = "''pothole on 5th''" and p = Medium
      and now = 1700000600000 and st = initial]
  from inst [of pothole] have a: "map_option status (map_of (issues (snd (post_issues 1700000600000
      (Some ''dev-loyw3v28'') pothole initial))) ''loywgq0w'') = Some Spam"
    by (auto simp: pothole_def id initial_def)
  from inst [of "without_data pothole photo"]
  have n: "map_option status (map_of (issues (snd (post_issues 1700000600000
      (Some ''dev-loyw3v28'') (without_data pothole photo) initial))) ''loywgq0w'') = Some Spam"
    by (auto simp: pothole_def without_data_def id initial_def)
  from inst [of "with_media pothole photo (data_url 13332)"] small
  have b: "map_option status (map_of (issues (snd (post_issues 1700000600000
      (Some ''dev-loyw3v28'') (with_media pothole photo (data_url 13332)) initial))) ''loywgq0w'')
      = Some Spam"
    by (auto simp: pothole_def with_media_def id initial_def)
  from inst [of "with_media pothole photo (data_url 13333)"] large
  have c: "map_option status (map_of (issues (snd (post_issues 1700000600000
      (Some ''dev-loyw3v28'') (with_media pothole photo (data_url 13333)) initial))) ''loywgq0w'')
      = Some Reported"
    by (auto simp: pothole_def with_media_def id initial_def)
  from inst [of "with_media pothole video []"]
  have d: "map_option status (map_of (issues (snd (post_issues 1700000600000
      (Some ''dev-loyw3v28'') (with_media pothole video []) initial))) ''loywgq0w'')
      = Some Reported"
    by (auto simp: pothole_def with_media_def id initial_def)
  from tok small large a n b c d show ?thesis
    by simp
qed

theorem media_without_data_counterexample:
  "(\<exists>m. b_media (without_data pothole video) = Some m \<and> type m \<noteq> photo)
   \<and> verifyMediaHeuristic (b_media (without_data pothole video))
       = \<lparr>isGenuine = False, reason = Some ''Invalid media data''\<rparr>
   \<and> map_option status (map_of (issues (snd (post_issues 1700000600000 (Some ''dev-loyw3v28'')
          (without_data pothole video) initial))) ''loywgq0w'') = Some Spam"
  by (simp add: without_data_def pothole_def initial_def post_issues_def startsWith_def
      slice4_def Let_def verifyMediaHeuristic_def verify_try_def toString36.simps digit36_def)

section \<open>Facts about the stores and the example requests\<close>

lemma map_of_map_values:
  "map_of (map (\<lambda>kv. (fst kv, f (snd kv))) al) k = map_option f (map_of al k)"
  by (induction al) auto

lemma map_of_escalation:
  "map_of (issues (escalation now st)) k = map_option (escalate_issue now) (map_of (issues st) k)"
  by (simp add: escalation_def map_of_map_values)

lemma toString36_examples:
  "toString36 1700000000000 = ''loyw3v28''"
  "toString36 1700000600000 = ''loywgq0w''"
  by (simp_all add: toString36.simps digit36_def)

lemma post_issues_example:
  "snd (post_issues 1700000000000 (Some ''dev-loyw3v28'')
          (with_media (pothole\<lparr>b_priority := Some High\<rparr>) photo (data_url 66666)) initial)
   = \<lparr>users = [],
      issues = [(''loyw3v28'',
        \<lparr>issue_id = ''loyw3v28'', userId = ''loyw3v28'', category = ''Other'',
         description = ''pothole on 5th'', priority = High, department = None,
         emergency = False, status = Reported, location = None,
         media = Some \<lparr>type = photo, data = Some (data_url 66666)\<rparr>, voice = None,
         createdAt = 1700000000000, updatedAt = 1700000000000\<rparr>)]\<rparr>"
  by (simp add: post_issues_def startsWith_def slice4_def Let_def verifyMediaHeuristic_def
      verify_try_def sizeBytes_data_url toString36_examples pothole_def with_media_def initial_def)

section \<open>The escalation tick\<close>

text \<open>
  C4: one tick at time \<open>now\<close> keeps the users, the keys of the issue store and their
  order.  Every issue that is not Resolved and whose age \<open>now - createdAt\<close> exceeds 7
  days gets status Assigned, department 'Commissioner' if it had no department (none, or
  the empty string, which JavaScript's \<open>||\<close> treats alike) and its own department
  otherwise, and \<open>updatedAt = now\<close>, with every other field as it was.  Every other
  issue, Resolved or not older than 7 days, is left exactly as it was.
\<close>

theorem escalation_tick:
  "users (escalation now st) = users st
   \<and> list_all2
        (\<lambda>kv kv'. fst kv' = fst kv
           \<and> snd kv' =
               (if status (snd kv) \<noteq> Resolved
                   \<and> 7 * 24 * 60 * 60 * 1000 < int now - int (createdAt (snd kv))
                then (snd kv)\<lparr>status := Assigned,
                               department :=
                                 (if department (snd kv) = None \<or> department (snd kv) = Some []
                                  then Some ''Commissioner'' else department (snd kv)),
                               updatedAt := now\<rparr>
                else snd kv))
        (issues st) (issues (escalation now st))"
  by (auto simp: escalation_def list_all2_map2 escalate_issue_def oneWeekMs_def truthy_def
      intro!: list_all2_refl split: option.splits)

theorem escalation_tick_witness:
  "map_option (\<lambda>i. (status i, department i, updatedAt i))
     (map_of (issues (snd (post_issues 1700000000000 (Some ''dev-loyw3v28'')
          (with_media (pothole\<lparr>b_priority := Some High\<rparr>) photo (data_url 66666)) initial)))
        ''loyw3v28'')
     = Some (Reported, None, 1700000000000)
   \<and> map_option (\<lambda>i. (status i, department i, updatedAt i))
     (map_of (issues (escalation 1700604800000
        (snd (post_issues 1700000000000 (Some ''dev-loyw3v28'')
          (with_media (pothole\<lparr>b_priority := Some High\<rparr>) photo (data_url 66666)) initial))))
        ''loyw3v28'')
     = Some (Reported, None, 1700000000000)
   \<and> map_option (\<lambda>i. (status i, department i, updatedAt i))
     (map_of (issues (escalation 1700604800001
        (snd (post_issues 1700000000000 (Some ''dev-loyw3v28'')
          (with_media (pothole\<lparr>b_priority := Some High\<rparr>) photo (data_url 66666)) initial))))
        ''loyw3v28'')
     = Some (Assigned, Some ''Commissioner'', 1700604800001)"
  using
    escalation_tick [of 1700604800000 "snd (post_issues 1700000000000 (Some ''dev-loyw3v28'')
          (with_media (pothole\<lparr>b_priority := Some High\<rparr>) photo (data_url 66666)) initial)"]
    escalation_tick [of 1700604800001 "snd (post_issues 1700000000000 (Some ''dev-loyw3v28'')
          (with_media (pothole\<lparr>b_priority := Some High\<rparr>) photo (data_url 66666)) initial)"]
  by (auto simp: post_issues_example list_all2_Cons1)

section \<open>The example states, evaluated\<close>

lemma pothole_reported_eq:
  "pothole_reported
   = \<lparr>users = [],
      issues = [(''loyw3v28'',
        \<lparr>issue_id = ''loyw3v28'', userId = ''loyw3v28'', category = ''Other'',
         description = ''pothole on 5th'', priority = Medium, department = None,
         emergency = False, status = Spam, location = None, media = None, voice = None,
         createdAt = 1700000000000, updatedAt = 1700000000000\<rparr>)]\<rparr>"
  by (simp add: pothole_reported_def post_issues_def startsWith_def slice4_def Let_def
      verifyMediaHeuristic_def verify_try_def toString36_examples pothole_def initial_def)

lemma pothole_resolved_eq:
  "pothole_resolved
   = \<lparr>users = [],
      issues = [(''loyw3v28'',
        \<lparr>issue_id = ''loyw3v28'', userId = ''loyw3v28'', category = ''Other'',
         description = ''pothole on 5th'', priority = Medium, department = None,
         emergency = False, status = Resolved, location = None, media = None, voice = None,
         createdAt = 1700000000000, updatedAt = 1700000600000\<rparr>)]\<rparr>"
  by (simp add: pothole_resolved_def pothole_reported_eq patch_issues_def Let_def get_property_def
      only_status_def)

section \<open>Leaving Resolved\<close>

text \<open>
  C3, as the code has it: the escalation tick never changes an issue whose status is
  Resolved, whatever its age.  A status update on it, however, succeeds and sets the
  status to whatever status the request supplies (any of the five, no transition table);
  the status stays Resolved only when the request supplies no status.
\<close>

theorem resolved_kept_by_tick_overwritten_by_update:
  assumes "map_of (issues st) k = Some i" and "status i = Resolved"
  shows "map_of (issues (escalation now st)) k = Some i
     \<and> (\<exists>i'. patch_issues now k b st
                = (Inr (Patched i'), st\<lparr>issues := AList.update k i' (issues st)\<rparr>)
            \<and> status i' = (case p_status b of None \<Rightarrow> Resolved | Some s \<Rightarrow> s))"
  using assms
  by (simp add: map_of_escalation escalate_issue_def patch_issues_def Let_def get_property_def
      split: option.splits)

theorem resolved_kept_by_tick_overwritten_by_update_witness:
  "map_option status (map_of (issues pothole_resolved) ''loyw3v28'') = Some Resolved
   \<and> map_of (issues (escalation 1700700000000 pothole_resolved)) ''loyw3v28''
       = map_of (issues pothole_resolved) ''loyw3v28''
   \<and> map_option status (map_of (issues (snd (patch_issues 1700700000000 ''loyw3v28''
        \<lparr>p_status = None, p_department = Some ''Roads'', p_priority = None\<rparr> pothole_resolved)))
        ''loyw3v28'') = Some Resolved
   \<and> map_option status (map_of (issues (snd (patch_issues 1700700000000 ''loyw3v28''
        (only_status Verified) pothole_resolved))) ''loyw3v28'') = Some Verified"
proof -
  let ?i = "\<lparr>issue_id = ''loyw3v28'', userId = ''loyw3v28'', category = ''Other'',
         description = ''pothole on 5th'', priority = Medium, department = None,
         emergency = False, status = Resolved, location = None, media = None, voice = None,
         createdAt = 1700000000000, updatedAt = 1700000600000\<rparr>"
  have stored: "map_of (issues pothole_resolved) ''loyw3v28'' = Some ?i"
    by (simp add: pothole_resolved_eq)
  have res: "status ?i = Resolved"
    by simp
  note inst = resolved_kept_by_tick_overwritten_by_update [OF stored res, of 1700700000000]
  from inst [of "\<lparr>p_status = None, p_department = Some ''Roads'', p_priority = None\<rparr>"]
    inst [of "only_status Verified"] stored
  show ?thesis
    by (auto simp: only_status_def AList.update_conv')
qed

theorem resolved_overwritten_counterexample:
  "map_option status (map_of (issues pothole_resolved) ''loyw3v28'') = Some Resolved
   \<and> map_option status (map_of (issues (snd (patch_issues 1700700000000 ''loyw3v28''
        (only_status Reported) pothole_resolved))) ''loyw3v28'') = Some Reported"
  by (simp add: pothole_resolved_eq patch_issues_def Let_def get_property_def only_status_def)

section \<open>Status updates on identifiers that are not stored\<close>

lemma get_property_Undefined:
  "get_property obj k = Undefined \<longleftrightarrow> map_of obj k = None \<and> k \<notin> set Object_prototype_names"
  by (simp add: get_property_def split: option.splits)

lemma patch_issues_unknown:
  "map_of (issues st) k = None \<Longrightarrow> k \<notin> set Object_prototype_names \<Longrightarrow>
     patch_issues now k b st = (Inl (404, ''Issue not found''), st)"
  by (simp add: patch_issues_def Let_def get_property_def)

text \<open>
  C7 asks for a 404 on every identifier that is not in the store.  With the store empty,
  \<open>PATCH /issues/constructor\<close> passes the guard \<open>!existing\<close>, because
  \<open>issues['constructor']\<close> is the inherited function \<open>Object\<close>: the reply is a 200
  and not a 404.  The store itself is left unchanged.
\<close>

theorem patch_issues_inherited_key:
  "patch_issues 1700000600000 ''constructor'' (only_status Resolved) initial
   = (Inr PatchedBuiltin, initial)"
  by (simp add: patch_issues_def Let_def get_property_def Object_prototype_names_def initial_def)

section \<open>Issue identifiers\<close>

lemma digit36_inject: "a < 36 \<Longrightarrow> b < 36 \<Longrightarrow> digit36 a = digit36 b \<Longrightarrow> a = b"
proof -
  assume a: "a < 36" and b: "b < 36" and eq: "digit36 a = digit36 b"
  have d: "distinct ''0123456789abcdefghijklmnopqrstuvwxyz''"
    by simp
  from a b eq show "a = b"
    unfolding digit36_def using nth_eq_iff_index_eq [OF d, of a b] by simp
qed

lemma toString36_nonempty: "toString36 n \<noteq> []"
  by (subst toString36.simps) simp

lemma toString36_inject: "toString36 n = toString36 m \<Longrightarrow> n = m"
proof (induction n arbitrary: m rule: toString36.induct)
  case (1 n)
  show ?case
  proof (cases "n < 36")
    case n: True
    show ?thesis
    proof (cases "m < 36")
      case True
      with n "1.prems" show ?thesis
        by (simp add: toString36.simps [of n] toString36.simps [of m] digit36_inject)
    next
      case False
      with n "1.prems" toString36_nonempty [of "m div 36"] show ?thesis
        by (simp add: toString36.simps [of n] toString36.simps [of m])
    qed
  next
    case n: False
    show ?thesis
    proof (cases "m < 36")
      case True
      with n "1.prems" toString36_nonempty [of "n div 36"] show ?thesis
        by (simp add: toString36.simps [of n] toString36.simps [of m])
    next
      case False
      with n "1.prems" have q: "toString36 (n div 36) = toString36 (m div 36)"
        and r: "digit36 (n mod 36) = digit36 (m mod 36)"
        by (simp_all add: toString36.simps [of n] toString36.simps [of m])
      from "1.IH" [OF n q] have "n div 36 = m div 36" .
      moreover from r have "n mod 36 = m mod 36"
        by (intro digit36_inject) simp_all
      ultimately show ?thesis
        by (metis div_mult_mod_eq)
    qed
  qed
qed

text \<open>
  C9 asks that a creation never overwrites a stored issue.  Two creations at the same
  clock reading get the same identifier \<open>now.toString(36)\<close>: after the second one
  the store still holds one record, and it is the second issue; the first is gone.
\<close>

theorem same_millisecond_overwrites:
  "map (\<lambda>kv. (fst kv, description (snd kv))) (issues pothole_reported)
     = [(''loyw3v28'', ''pothole on 5th'')]
   \<and> map (\<lambda>kv. (fst kv, description (snd kv)))
       (issues (snd (post_issues 1700000000000 (Some ''dev-loyw3v28'')
          garbage pothole_reported)))
     = [(''loyw3v28'', ''garbage on 6th'')]"
  by (simp add: pothole_reported_eq post_issues_def startsWith_def slice4_def Let_def
      verifyMediaHeuristic_def verify_try_def toString36_examples pothole_def garbage_def)

section \<open>The token check of issue creation\<close>

text \<open>
  C6, as the code has it: issue creation answers 401 exactly when the token header is
  missing or does not start with \<open>dev-\<close>.  Whenever an issue is created, its
  \<open>userId\<close> is the token text after that prefix.  The user store is never consulted:
  the reply is the same whatever users are stored.
\<close>

theorem post_issues_token_check:
  "((\<exists>msg. fst (post_issues now tok b st) = Inl (401, msg))
      = (tok = None \<or> (\<exists>t. tok = Some t \<and> \<not> startsWith t ''dev-'')))
   \<and> (\<forall>issue. fst (post_issues now tok b st) = Inr issue
         \<longrightarrow> (\<exists>t. tok = Some t \<and> startsWith t ''dev-'' \<and> userId issue = drop 4 t))
   \<and> fst (post_issues now tok b (st\<lparr>users := us\<rparr>)) = fst (post_issues now tok b st)"
proof -
  have e: "\<not> startsWith [] ''dev-''"
    by (simp add: startsWith_def)
  show ?thesis
    using e by (auto simp: post_issues_def Let_def slice4_def split: option.splits)
qed

theorem post_issues_token_check_witness:
  "(\<exists>msg. fst (post_issues 1700000000000 None pothole initial) = Inl (401, msg))
   \<and> (\<exists>msg. fst (post_issues 1700000000000 (Some ''Bearer loyw3v28'') pothole initial)
         = Inl (401, msg))
   \<and> (\<exists>issue. fst (post_issues 1700000000000 (Some ''dev-ghost'') pothole initial) = Inr issue
         \<and> userId issue = ''ghost'')"
proof -
  have a: "\<not> startsWith ''Bearer loyw3v28'' ''dev-''"
    by (simp add: startsWith_def)
  obtain issue where
    i: "fst (post_issues 1700000000000 (Some ''dev-ghost'') pothole initial) = Inr issue"
    by (simp add: post_issues_def startsWith_def Let_def pothole_def)
  from post_issues_token_check [of 1700000000000 None pothole initial]
    post_issues_token_check [of 1700000000000 "Some ''Bearer loyw3v28''" pothole initial]
    post_issues_token_check [of 1700000000000 "Some ''dev-ghost''" pothole initial]
    a i
  show ?thesis
    by auto
qed

theorem unknown_token_accepted_counterexample:
  "\<not> known_token initial (Some ''dev-ghost'')
   \<and> (\<exists>issue. fst (post_issues 1700000000000 (Some ''dev-ghost'') pothole initial) = Inr issue
         \<and> userId issue = ''ghost'')"
  by (simp add: known_token_def initial_def post_issues_def startsWith_def slice4_def Let_def
      pothole_def)

section \<open>Listing the issues\<close>

lemma mset_Object_values: "mset (Object_values obj) = mset (map snd obj)"
proof -
  have "mset (Object_values obj)
      = image_mset snd (filter_mset (\<lambda>kv. is_array_index (fst kv)) (mset obj))
        + image_mset snd (filter_mset (\<lambda>kv. \<not> is_array_index (fst kv)) (mset obj))"
    by (simp add: Object_values_def)
  also have "\<dots> = image_mset snd (mset obj)"
    by (simp flip: image_mset_union)
  finally show ?thesis
    by simp
qed


lemma Object_values_no_index:
  "list_all (\<lambda>kv. \<not> is_array_index (fst kv)) obj \<Longrightarrow> Object_values obj = map snd obj"
  by (simp add: Object_values_def list_all_iff)

lemma update_fresh: "k \<notin> fst ` set al \<Longrightarrow> AList.update k v al = al @ [(k, v)]"
  by (induction al) auto

lemma Object_values_update_fresh:
  "\<not> is_array_index k \<Longrightarrow> k \<notin> fst ` set obj \<Longrightarrow>
     Object_values (AList.update k v obj) = Object_values obj @ [v]"
  by (simp add: update_fresh Object_values_def)

lemma get_issues_no_filters_eq: "get_issues N no_filters st = Object_values (issues st)"
  by (simp add: get_issues_def no_filters_def truthy_def)

lemma post_issues_Inr:
  "fst (post_issues now tok b st) = Inr issue \<Longrightarrow>
     snd (post_issues now tok b st)
       = st\<lparr>issues := AList.update (toString36 now) issue (issues st)\<rparr>"
  by (auto simp: post_issues_def Let_def split: option.splits if_splits)

lemma two_reports_eq:
  "two_reports
   = \<lparr>users = [],
      issues = [(''loyw3v28'',
        \<lparr>issue_id = ''loyw3v28'', userId = ''loyw3v28'', category = ''Other'',
         description = ''pothole on 5th'', priority = Medium, department = None,
         emergency = False, status = Spam, location = None, media = None, voice = None,
         createdAt = 1700000000000, updatedAt = 1700000000000\<rparr>),
        (''loywgq0w'',
        \<lparr>issue_id = ''loywgq0w'', userId = ''loyw3v28'', category = ''Other'',
         description = ''garbage on 6th'', priority = Medium, department = None,
         emergency = False, status = Spam, location = None, media = None, voice = None,
         createdAt = 1700000600000, updatedAt = 1700000600000\<rparr>)]\<rparr>"
  by (simp add: two_reports_def pothole_reported_eq post_issues_def startsWith_def slice4_def
      Let_def verifyMediaHeuristic_def verify_try_def toString36_examples pothole_def garbage_def)

lemma example_ids_no_index:
  "\<not> is_array_index ''loyw3v28''" "\<not> is_array_index ''loywgq0w''"
  by (simp_all add: is_array_index_def)

text \<open>
  C2, as the code has it: the list without filters holds every stored issue, each as
  often as it is stored (once), in the enumeration order of the store, which is not
  re-sorted.  When no identifier is an array index this is insertion order; and a
  creation under a new identifier that is not an array index puts the new issue last.
  The order is therefore oldest first, not most recent first.
\<close>

theorem get_issues_no_filters:
  "mset (get_issues N no_filters st) = mset (map snd (issues st))
   \<and> (list_all (\<lambda>kv. \<not> is_array_index (fst kv)) (issues st)
        \<longrightarrow> get_issues N no_filters st = map snd (issues st))
   \<and> (\<not> is_array_index (toString36 now) \<and> toString36 now \<notin> fst ` set (issues st)
        \<and> fst (post_issues now tok b st) = Inr issue
        \<longrightarrow> get_issues N no_filters (snd (post_issues now tok b st))
              = get_issues N no_filters st @ [issue])"
  by (simp add: get_issues_no_filters_eq mset_Object_values Object_values_no_index
      post_issues_Inr Object_values_update_fresh)

theorem get_issues_no_filters_witness:
  "list_all (\<lambda>kv. \<not> is_array_index (fst kv)) (issues two_reports)
   \<and> map description (get_issues (\<lambda>s. NaN) no_filters two_reports)
       = [''pothole on 5th'', ''garbage on 6th'']
   \<and> map createdAt (get_issues (\<lambda>s. NaN) no_filters two_reports)
       = [1700000000000, 1700000600000]
   \<and> get_issues (\<lambda>s. NaN) no_filters two_reports
       = get_issues (\<lambda>s. NaN) no_filters pothole_reported
         @ [snd (last (issues two_reports))]"
proof -
  have noidx: "list_all (\<lambda>kv. \<not> is_array_index (fst kv)) (issues two_reports)"
    by (simp add: two_reports_eq example_ids_no_index)
  have created: "fst (post_issues 1700000600000 (Some ''dev-loyw3v28'') garbage pothole_reported)
      = Inr (snd (last (issues two_reports)))"
    by (simp add: two_reports_eq post_issues_def startsWith_def slice4_def
      Let_def verifyMediaHeuristic_def verify_try_def toString36_examples pothole_def garbage_def)
  have fresh: "\<not> is_array_index (toString36 1700000600000)
      \<and> toString36 1700000600000 \<notin> fst ` set (issues pothole_reported)"
    by (simp add: toString36_examples example_ids_no_index pothole_reported_eq)
  from get_issues_no_filters [of "\<lambda>s. NaN" two_reports 0 None pothole "snd (last (issues two_reports))"]
    get_issues_no_filters [of "\<lambda>s. NaN" pothole_reported 1700000600000 "Some ''dev-loyw3v28''"
      garbage "snd (last (issues two_reports))"]
    noidx created fresh
  show ?thesis
    by (simp add: two_reports_eq two_reports_def [symmetric])
qed

theorem list_oldest_first_counterexample:
  "map createdAt (get_issues (\<lambda>s. NaN) no_filters two_reports)
     = [1700000000000, 1700000600000]
   \<and> \<not> most_recent_first (get_issues (\<lambda>s. NaN) no_filters two_reports)"
  by (simp add: get_issues_no_filters_eq Object_values_def two_reports_eq example_ids_no_index
      most_recent_first_def)

section \<open>Signup, then login\<close>

lemma set_update_subset: "set (AList.update k v al) \<subseteq> insert (k, v) (set al)"
  by (induction al) auto







section \<open>Timestamps along a run of the server\<close>

lemma list_all_update:
  "list_all P al \<Longrightarrow> P (k, v) \<Longrightarrow> list_all P (AList.update k v al)"
  using set_update_subset [of k v al] by (auto simp: list_all_iff)

lemma timestamps_ok_later: "timestamps_ok clk st \<Longrightarrow> clk \<le> now \<Longrightarrow> timestamps_ok now st"
  by (auto simp: timestamps_ok_def list_all_iff)

lemma post_issues_effect:
  "snd (post_issues now tok b st) = st
   \<or> (\<exists>issue. snd (post_issues now tok b st)
                = st\<lparr>issues := AList.update (toString36 now) issue (issues st)\<rparr>
        \<and> createdAt issue = now \<and> updatedAt issue = now)"
  by (auto simp: post_issues_def Let_def split: option.splits)

lemma patch_issues_effect:
  "snd (patch_issues now k b st) = st
   \<or> (\<exists>e e'. map_of (issues st) k = Some e
        \<and> snd (patch_issues now k b st) = st\<lparr>issues := AList.update k e' (issues st)\<rparr>
        \<and> createdAt e' = createdAt e \<and> updatedAt e' = now)"
  by (auto simp: patch_issues_def Let_def get_property_def split: option.splits)

lemma escalate_issue_timestamps:
  "createdAt (escalate_issue now i) = createdAt i
   \<and> (escalate_issue now i = i \<or> updatedAt (escalate_issue now i) = now)"
  by (simp add: escalate_issue_def)

lemma step_timestamps_ok:
  assumes ok: "timestamps_ok clk st" and le: "clk \<le> now"
  shows "timestamps_ok now (step now r st)"
proof (cases r)
  case (PostIssues tok b)
  from post_issues_effect [of now tok b st] timestamps_ok_later [OF ok le]
  show ?thesis
    by (auto simp: PostIssues step_def timestamps_ok_def intro!: list_all_update)
next
  case (PatchIssues k b)
  from patch_issues_effect [of now k b st] show ?thesis
  proof
    assume "snd (patch_issues now k b st) = st"
    with timestamps_ok_later [OF ok le] show ?thesis
      by (simp add: PatchIssues step_def)
  next
    assume "\<exists>e e'. map_of (issues st) k = Some e
        \<and> snd (patch_issues now k b st) = st\<lparr>issues := AList.update k e' (issues st)\<rparr>
        \<and> createdAt e' = createdAt e \<and> updatedAt e' = now"
    then obtain e e' where e: "map_of (issues st) k = Some e"
      and s: "snd (patch_issues now k b st) = st\<lparr>issues := AList.update k e' (issues st)\<rparr>"
      and c: "createdAt e' = createdAt e" and u: "updatedAt e' = now"
      by blast
    from e have "(k, e) \<in> set (issues st)"
      by (rule map_of_SomeD)
    with ok le have "createdAt e \<le> now"
      by (fastforce simp: timestamps_ok_def list_all_iff)
    with timestamps_ok_later [OF ok le] c u show ?thesis
      by (auto simp: PatchIssues step_def s timestamps_ok_def intro!: list_all_update)
  qed
next
  case EscalationTick
  have "\<And>i. createdAt i \<le> updatedAt i \<Longrightarrow> updatedAt i \<le> now \<Longrightarrow>
      createdAt (escalate_issue now i) \<le> updatedAt (escalate_issue now i)
      \<and> updatedAt (escalate_issue now i) \<le> now"
    by (simp add: escalate_issue_def)
  with timestamps_ok_later [OF ok le] show ?thesis
    by (auto simp: EscalationTick step_def escalation_def timestamps_ok_def list_all_iff)
qed

lemma step_updatedAt_mono:
  assumes ok: "timestamps_ok clk st" and le: "clk \<le> now"
    and i: "map_of (issues st) k = Some i"
  shows "\<exists>i'. map_of (issues (step now r st)) k = Some i' \<and> updatedAt i \<le> updatedAt i'"
proof -
  from i have "(k, i) \<in> set (issues st)"
    by (rule map_of_SomeD)
  with ok le have u: "updatedAt i \<le> now"
    by (fastforce simp: timestamps_ok_def list_all_iff)
  show ?thesis
  proof (cases r)
    case (PostIssues tok b)
    from post_issues_effect [of now tok b st] i u show ?thesis
      by (auto simp: PostIssues step_def AList.update_conv')
  next
    case (PatchIssues k' b)
    from patch_issues_effect [of now k' b st] i u show ?thesis
      by (auto simp: PatchIssues step_def AList.update_conv')
  next
    case EscalationTick
    from escalate_issue_timestamps [of now i] i u show ?thesis
      by (auto simp: EscalationTick step_def map_of_escalation)
  qed
qed

lemma step_changed_now:
  assumes "map_of (issues (step now r st)) k = Some i'" and "map_of (issues st) k \<noteq> Some i'"
  shows "updatedAt i' = now"
proof (cases r)
  case (PostIssues tok b)
  from post_issues_effect [of now tok b st] assms show ?thesis
    by (auto simp: PostIssues step_def AList.update_conv' split: if_splits)
next
  case (PatchIssues k' b)
  from patch_issues_effect [of now k' b st] assms show ?thesis
    by (auto simp: PatchIssues step_def AList.update_conv' split: if_splits)
next
  case EscalationTick
  from assms obtain i where i: "map_of (issues st) k = Some i" and "i' = escalate_issue now i"
    by (auto simp: EscalationTick step_def map_of_escalation)
  with escalate_issue_timestamps [of now i] assms(2) show ?thesis
    by auto
qed

lemma chronological_Cons:
  "chronological clk (tr # rest) \<longleftrightarrow> clk \<le> fst tr \<and> chronological (fst tr) rest"
  by (fastforce simp: chronological_def)

lemma run_timestamps_ok:
  "chronological clk trace \<Longrightarrow> timestamps_ok clk st \<Longrightarrow>
     timestamps_ok (last (clk # map fst trace)) (run trace st)"
proof (induction trace arbitrary: clk st)
  case Nil
  then show ?case by simp
next
  case (Cons tr rest)
  from Cons.prems have le: "clk \<le> fst tr" and ch: "chronological (fst tr) rest"
    by (simp_all add: chronological_Cons)
  from Cons.IH [OF ch step_timestamps_ok [OF Cons.prems(2) le]] show ?case
    by simp
qed

lemma run_updatedAt_mono:
  "chronological clk trace \<Longrightarrow> timestamps_ok clk st \<Longrightarrow> map_of (issues st) k = Some i \<Longrightarrow>
     \<exists>i'. map_of (issues (run trace st)) k = Some i' \<and> updatedAt i \<le> updatedAt i'"
proof (induction trace arbitrary: clk st i)
  case Nil
  then show ?case by simp
next
  case (Cons tr rest)
  from Cons.prems have le: "clk \<le> fst tr" and ch: "chronological (fst tr) rest"
    by (simp_all add: chronological_Cons)
  from step_updatedAt_mono [OF Cons.prems(2) le Cons.prems(3)]
  obtain j where j: "map_of (issues (step (fst tr) (snd tr) st)) k = Some j"
    and ij: "updatedAt i \<le> updatedAt j"
    by blast
  from Cons.IH [OF ch step_timestamps_ok [OF Cons.prems(2) le] j] ij show ?case
    by auto
qed

lemma post_issues_creates:
  assumes "startsWith t ''dev-''" and "b_description b = Some d" and "d \<noteq> []"
    and "b_priority b = Some p"
  shows "\<exists>issue. map_of (issues (step now (PostIssues (Some t) b) s)) (toString36 now) = Some issue
     \<and> createdAt issue = now \<and> updatedAt issue = now"
proof -
  from assms(1) have "t \<noteq> []"
    by (auto simp: startsWith_def)
  with assms show ?thesis
    by (simp add: step_def post_issues_def Let_def AList.update_conv')
qed

lemma patch_issues_refreshes:
  "map_of (issues s) k = Some i \<Longrightarrow>
     \<exists>i'. map_of (issues (step now (PatchIssues k b) s)) k = Some i'
       \<and> createdAt i' = createdAt i \<and> updatedAt i' = now"
  by (simp add: step_def patch_issues_def Let_def get_property_def AList.update_conv'
      split: option.splits)

lemma tick_refreshes:
  "map_of (issues s) k = Some i \<Longrightarrow>
     \<exists>i'. map_of (issues (step now EscalationTick s)) k = Some i'
       \<and> createdAt i' = createdAt i
       \<and> (if status i \<noteq> Resolved \<and> 7 * 24 * 60 * 60 * 1000 < int now - int (createdAt i)
           then updatedAt i' = now else i' = i)"
  by (simp add: step_def map_of_escalation escalate_issue_def oneWeekMs_def)

text \<open>
  C8, as the code has it.  Take any sequence of creations, status updates and
  escalation ticks whose clock readings never go back, started in a state where every
  issue has \<open>createdAt \<le> updatedAt \<le> clk\<close> (the empty start-up state is one).  Then
  in the state it ends in, and so after each of its calls, every issue has
  \<open>createdAt \<le> updatedAt\<close>, at most the last clock reading, and every identifier
  stored at the start is still stored with an \<open>updatedAt\<close> that has not decreased.
  In every state and at every clock reading: an accepted creation stores its issue with
  \<open>createdAt = updatedAt = now\<close>; a status update on a stored identifier sets its
  \<open>updatedAt\<close> to \<open>now\<close>, whichever fields it supplies, and keeps \<open>createdAt\<close>; a
  tick sets \<open>updatedAt\<close> to \<open>now\<close> on every issue that is not Resolved and older than
  7 days and leaves every other issue as it is; and any record a call creates or
  changes has \<open>updatedAt = now\<close>.  When the clock is set back between two calls,
  \<open>updatedAt\<close> decreases and falls below \<open>createdAt\<close>.
\<close>

theorem updatedAt_never_decreases:
  assumes "chronological clk trace" and "timestamps_ok clk st"
  shows "timestamps_ok (last (clk # map fst trace)) (run trace st)
    \<and> (\<forall>k i. map_of (issues st) k = Some i
          \<longrightarrow> (\<exists>i'. map_of (issues (run trace st)) k = Some i' \<and> updatedAt i \<le> updatedAt i'))
    \<and> (\<forall>s now t b d p. startsWith t ''dev-'' \<and> b_description b = Some d \<and> d \<noteq> []
             \<and> b_priority b = Some p
          \<longrightarrow> (\<exists>issue. map_of (issues (step now (PostIssues (Some t) b) s)) (toString36 now)
                          = Some issue
                 \<and> createdAt issue = now \<and> updatedAt issue = now))
    \<and> (\<forall>s now k b i. map_of (issues s) k = Some i
          \<longrightarrow> (\<exists>i'. map_of (issues (step now (PatchIssues k b) s)) k = Some i'
                 \<and> createdAt i' = createdAt i \<and> updatedAt i' = now))
    \<and> (\<forall>s now k i. map_of (issues s) k = Some i
          \<longrightarrow> (\<exists>i'. map_of (issues (step now EscalationTick s)) k = Some i'
                 \<and> createdAt i' = createdAt i
                 \<and> (if status i \<noteq> Resolved
                        \<and> 7 * 24 * 60 * 60 * 1000 < int now - int (createdAt i)
                     then updatedAt i' = now else i' = i)))
    \<and> (\<forall>s now r k i'. map_of (issues (step now r s)) k = Some i'
             \<and> map_of (issues s) k \<noteq> Some i' \<longrightarrow> updatedAt i' = now)"
proof -
  have a: "timestamps_ok (last (clk # map fst trace)) (run trace st)"
    by (rule run_timestamps_ok [OF assms])
  have b: "\<forall>k i. map_of (issues st) k = Some i
          \<longrightarrow> (\<exists>i'. map_of (issues (run trace st)) k = Some i' \<and> updatedAt i \<le> updatedAt i')"
    using run_updatedAt_mono [OF assms] by blast
  have c: "\<forall>s now t b d p. startsWith t ''dev-'' \<and> b_description b = Some d \<and> d \<noteq> []
             \<and> b_priority b = Some p
          \<longrightarrow> (\<exists>issue. map_of (issues (step now (PostIssues (Some t) b) s)) (toString36 now)
                          = Some issue
                 \<and> createdAt issue = now \<and> updatedAt issue = now)"
    using post_issues_creates by blast
  have d: "\<forall>s now k b i. map_of (issues s) k = Some i
          \<longrightarrow> (\<exists>i'. map_of (issues (step now (PatchIssues k b) s)) k = Some i'
                 \<and> createdAt i' = createdAt i \<and> updatedAt i' = now)"
    using patch_issues_refreshes by blast
  have e: "\<forall>s now k i. map_of (issues s) k = Some i
          \<longrightarrow> (\<exists>i'. map_of (issues (step now EscalationTick s)) k = Some i'
                 \<and> createdAt i' = createdAt i
                 \<and> (if status i \<noteq> Resolved
                        \<and> 7 * 24 * 60 * 60 * 1000 < int now - int (createdAt i)
                     then updatedAt i' = now else i' = i))"
    using tick_refreshes by blast
  have f: "\<forall>s now r k i'. map_of (issues (step now r s)) k = Some i'
             \<and> map_of (issues s) k \<noteq> Some i' \<longrightarrow> updatedAt i' = now"
    using step_changed_now by blast
  from a b c d e f show ?thesis
    by (intro conjI)
qed


theorem updatedAt_never_decreases_witness:
  "chronological 0 [(1700000000000, PostIssues (Some ''dev-loyw3v28'') pothole),
                    (1700000600000, PatchIssues ''loyw3v28'' (only_status Verified)),
                    (1700000600000, PatchIssues ''loyw3v28'' (only_status Resolved))]
   \<and> timestamps_ok 0 initial
   \<and> timestamps_ok 1700000600000
        (run [(1700000000000, PostIssues (Some ''dev-loyw3v28'') pothole),
              (1700000600000, PatchIssues ''loyw3v28'' (only_status Verified)),
              (1700000600000, PatchIssues ''loyw3v28'' (only_status Resolved))] initial)
   \<and> chronological 1700000000000 [(1700000600000, PatchIssues ''loyw3v28'' (only_status Verified)),
                    (1700604800001, EscalationTick)]
   \<and> timestamps_ok 1700000000000 pothole_reported
   \<and> map_option updatedAt (map_of (issues pothole_reported) ''loyw3v28'') = Some 1700000000000
   \<and> (\<exists>i'. map_of (issues (run [(1700000600000, PatchIssues ''loyw3v28'' (only_status Verified)),
                    (1700604800001, EscalationTick)] pothole_reported)) ''loyw3v28'' = Some i'
          \<and> 1700000000000 \<le> updatedAt i')
   \<and> map_option (\<lambda>i. (status i, createdAt i, updatedAt i))
        (map_of (issues (run [(1700000600000, PatchIssues ''loyw3v28'' (only_status Verified)),
                    (1700604800001, EscalationTick)] pothole_reported)) ''loyw3v28'')
       = Some (Assigned, 1700000000000, 1700604800001)
   \<and> map_option updatedAt
        (map_of (issues (step 1700000600000
           (PatchIssues ''loyw3v28'' \<lparr>p_status = None, p_department = None, p_priority = None\<rparr>)
           pothole_reported)) ''loyw3v28'')
       = Some 1700000600000"
proof -
  let ?t1 = "[(1700000000000, PostIssues (Some ''dev-loyw3v28'') pothole),
              (1700000600000, PatchIssues ''loyw3v28'' (only_status Verified)),
              (1700000600000, PatchIssues ''loyw3v28'' (only_status Resolved))]"
  let ?t2 = "[(1700000600000, PatchIssues ''loyw3v28'' (only_status Verified)),
              (1700604800001, EscalationTick)]"
  have c1: "chronological 0 ?t1" and c2: "chronological 1700000000000 ?t2"
    by (simp_all add: chronological_def)
  have o1: "timestamps_ok 0 initial" and o2: "timestamps_ok 1700000000000 pothole_reported"
    by (simp_all add: timestamps_ok_def initial_def pothole_reported_eq)
  let ?i = "\<lparr>issue_id = ''loyw3v28'', userId = ''loyw3v28'', category = ''Other'',
         description = ''pothole on 5th'', priority = Medium, department = None,
         emergency = False, status = Spam, location = None, media = None, voice = None,
         createdAt = 1700000000000, updatedAt = 1700000000000\<rparr>"
  have stored: "map_of (issues pothole_reported) ''loyw3v28'' = Some ?i"
    by (simp add: pothole_reported_eq)
  from updatedAt_never_decreases [OF c1 o1]
  have a: "timestamps_ok 1700000600000 (run ?t1 initial)"
    by simp
  note facts = updatedAt_never_decreases [OF c2 o2]
  from facts [THEN conjunct2, THEN conjunct1, rule_format, OF stored]
  have "\<exists>i'. map_of (issues (run ?t2 pothole_reported)) ''loyw3v28'' = Some i'
      \<and> updatedAt ?i \<le> updatedAt i'" .
  then have b: "\<exists>i'. map_of (issues (run ?t2 pothole_reported)) ''loyw3v28'' = Some i'
      \<and> 1700000000000 \<le> updatedAt i'"
    by simp
  from stored have c: "map_option updatedAt (map_of (issues pothole_reported) ''loyw3v28'')
      = Some 1700000000000"
    by simp
  have d: "map_option (\<lambda>i. (status i, createdAt i, updatedAt i))
        (map_of (issues (run ?t2 pothole_reported)) ''loyw3v28'')
       = Some (Assigned, 1700000000000, 1700604800001)"
    by (simp add: pothole_reported_eq step_def patch_issues_def Let_def get_property_def
        only_status_def map_of_escalation escalate_issue_def oneWeekMs_def)
  from facts [THEN conjunct2, THEN conjunct2, THEN conjunct2, THEN conjunct1, rule_format,
      OF stored, of 1700000600000
        "\<lparr>p_status = None, p_department = None, p_priority = None\<rparr>"]
  have "\<exists>i'. map_of (issues (step 1700000600000
           (PatchIssues ''loyw3v28'' \<lparr>p_status = None, p_department = None, p_priority = None\<rparr>)
           pothole_reported)) ''loyw3v28'' = Some i' \<and> createdAt i' = createdAt ?i
         \<and> updatedAt i' = 1700000600000" .
  then have e: "map_option updatedAt
        (map_of (issues (step 1700000600000
           (PatchIssues ''loyw3v28'' \<lparr>p_status = None, p_department = None, p_priority = None\<rparr>)
           pothole_reported)) ''loyw3v28'')
       = Some 1700000600000"
    by auto
  from c1 c2 o1 o2 a b c d e show ?thesis
    by blast
qed

theorem clock_set_back_counterexample:
  "map_option (\<lambda>i. (createdAt i, updatedAt i)) (map_of (issues pothole_reported) ''loyw3v28'')
     = Some (1700000000000, 1700000000000)
   \<and> map_option (\<lambda>i. (createdAt i, updatedAt i))
       (map_of (issues (step 1699999999999 (PatchIssues ''loyw3v28'' (only_status Verified))
          pothole_reported)) ''loyw3v28'')
     = Some (1700000000000, 1699999999999)"
  by (simp add: pothole_reported_eq step_def patch_issues_def Let_def get_property_def
      only_status_def)

end
